theory Spec2Isabelle
  imports Complex_Main
begin

section \<open>Python strings\<close>

text \<open>
  Strings are lists of 8-bit characters. \<open>split_on c s\<close> is \<^verbatim>\<open>s.split(c)\<close> for a
  one-character separator: it always returns at least one piece, and an empty string
  gives one empty piece.
\<close>

fun split_on :: "char \<Rightarrow> string \<Rightarrow> string list" where
  "split_on c [] = [[]]"
| "split_on c (x # xs) =
     (if x = c then [] # split_on c xs
      else (case split_on c xs of [] \<Rightarrow> [[x]] | w # ws \<Rightarrow> (x # w) # ws))"

text \<open>\<open>str_join sep xs\<close> is \<^verbatim>\<open>sep.join(xs)\<close>.\<close>

fun str_join :: "string \<Rightarrow> string list \<Rightarrow> string" where
  "str_join sep [] = []"
| "str_join sep [x] = x"
| "str_join sep (x # y # ys) = x @ sep @ str_join sep (y # ys)"

text \<open>\<^verbatim>\<open>s.lstrip(cs)\<close>, \<^verbatim>\<open>s.rstrip(cs)\<close> and \<^verbatim>\<open>s.strip(cs)\<close>: every leading
  (trailing) character that occurs in \<open>cs\<close> is removed.\<close>

definition lstrip :: "string \<Rightarrow> string \<Rightarrow> string" where
  "lstrip cs s = dropWhile (\<lambda>c. c \<in> set cs) s"

definition rstrip :: "string \<Rightarrow> string \<Rightarrow> string" where
  "rstrip cs s = rev (dropWhile (\<lambda>c. c \<in> set cs) (rev s))"

definition strip :: "string \<Rightarrow> string \<Rightarrow> string" where
  "strip cs s = rstrip cs (lstrip cs s)"

section \<open>JSON values, requests, responses and exceptions\<close>

text \<open>
  A decoded JSON document, as \<^verbatim>\<open>response.json()\<close> returns it. An object is the list of
  its items; \<open>JObj kvs\<close> stands for the dictionary \<open>map_of kvs\<close>.
\<close>

datatype json =
    JNull
  | JBool bool
  | JInt int
  | JFloat real
  | JStr string
  | JArr "json list"
  | JObj "(string \<times> json) list"

text \<open>
  The named pipe made by \<open>create_temporary_fifo\<close>: its path, and the bytes that the
  writer thread started for it offers to whoever opens the path for reading.
\<close>

record fifo =
  fifo_path :: string
  fifo_data :: string

text \<open>
  What \<^verbatim>\<open>sess.get(request_url, **request_kwargs)\<close> and
  \<^verbatim>\<open>sess.post(request_url, **request_kwargs)\<close> hand to the HTTP library: the method, the
  URL, the session's Authorization header and the keyword arguments \<open>timeout\<close>,
  \<open>verify\<close>, \<open>params\<close> and \<open>json\<close> (an absent key is \<open>None\<close>, an absent
  \<open>params\<close> the empty list).
\<close>

record request =
  req_method :: string
  req_url :: string
  req_authorization :: string
  req_timeout :: nat
  req_verify :: "fifo option"
  req_params :: "(string \<times> string) list"
  req_json :: "json option"

text \<open>
  A response: its status code and its body, held as the value \<^verbatim>\<open>response.json()\<close>
  decodes from it (\<open>None\<close> when the body is not valid JSON).
\<close>

record response =
  status_code :: int
  decoded :: "json option"

datatype error =
    KeyError string
  | TypeError
  | ValueError string
  | RuntimeError string
  | HTTPError response
  | JSONDecodeError
  | RequestException string
  | OSError string

text \<open>Sequencing of statements that may raise.\<close>

definition err_bind :: "error + 'a \<Rightarrow> ('a \<Rightarrow> error + 'b) \<Rightarrow> error + 'b" where
  "err_bind m f = (case m of Inl e \<Rightarrow> Inl e | Inr x \<Rightarrow> f x)"

section \<open>pathlib: the parts of a POSIX path\<close>

text \<open>\<^verbatim>\<open>_PosixFlavour.splitroot\<close>: drive, root and the rest of one path string.\<close>

definition splitroot :: "string \<Rightarrow> string \<times> string \<times> string" where
  "splitroot part =
     (if part \<noteq> [] \<and> hd part = CHR ''/'' then
        (let stripped_part = lstrip ''/'' part in
         if length part - length stripped_part = 2 then ([], ''//'', stripped_part)
         else ([], ''/'', stripped_part))
      else ([], [], part))"

text \<open>
  \<^verbatim>\<open>pathlib.Path(s).parts\<close> on a POSIX system, where \<^verbatim>\<open>os.sep\<close> is \<open>/\<close>:
  \<^verbatim>\<open>parse_parts\<close> run on the single argument \<open>s\<close>. The components are collected back to
  front, the root (if any) is appended, and the list is reversed.
\<close>

definition path_parts :: "string \<Rightarrow> string list" where
  "path_parts part =
     (if part = [] then []
      else (case splitroot part of (drv, root', rel) \<Rightarrow>
        (let parsed =
               (if CHR ''/'' \<in> set rel
                then filter (\<lambda>x. x \<noteq> [] \<and> x \<noteq> ''.'') (rev (split_on CHR ''/'' rel))
                else (if rel \<noteq> [] \<and> rel \<noteq> ''.'' then [rel] else []));
             parsed = (if drv \<noteq> [] \<or> root' \<noteq> [] then parsed @ [drv @ root'] else parsed)
         in rev parsed)))"

section \<open>The KV v2 decomposition of the secret path\<close>

text \<open>\<^verbatim>\<open>mount_point, *path = xs\<close>: raises ValueError on an empty sequence.\<close>

definition unpack_first :: "string list \<Rightarrow> error + string \<times> string list" where
  "unpack_first xs =
     (case xs of
        [] \<Rightarrow> Inl (ValueError ''not enough values to unpack (expected at least 1, got 0)'')
      | x # rest \<Rightarrow> Inr (x, rest))"

text \<open>
  The \<^verbatim>\<open>try\<close> block of \<open>kv_backend\<close> and its handler:
  \<^verbatim>\<open>
  try:
      mount_point, *path = pathlib.Path(secret_path.lstrip(os.sep)).parts
      '/'.join(path)
  except Exception:
      mount_point, path = secret_path, []
  \<close>
  \<open>split_secret_path_try\<close> is the body of the \<^verbatim>\<open>try\<close>, \<open>split_secret_path\<close> the whole
  statement.
\<close>

definition split_secret_path_try :: "string \<Rightarrow> error + string \<times> string list" where
  "split_secret_path_try secret_path = unpack_first (path_parts (lstrip ''/'' secret_path))"

definition split_secret_path :: "string \<Rightarrow> string \<times> string list" where
  "split_secret_path secret_path =
     (case split_secret_path_try secret_path of
        Inr (mount_point, path) \<Rightarrow> (mount_point, path)
      | Inl _ \<Rightarrow> (secret_path, []))"

section \<open>urllib.parse: joining the server URL with the API root\<close>

text \<open>
  \<open>urljoin\<close> and the functions under it follow CPython 3.11's \<^verbatim>\<open>urllib/parse.py\<close> on
  \<^verbatim>\<open>str\<close> arguments with \<^verbatim>\<open>allow_fragments=True\<close>. Left out: the result cache, the
  bytes/str coercion, and \<^verbatim>\<open>_checknetloc\<close>, which raises only when a non-ASCII network
  location normalises (NFKC) to text containing one of \<open>/?#@:\<close>; no 8-bit character
  does. \<^verbatim>\<open>ipaddress.ip_address\<close>, which \<^verbatim>\<open>_check_bracketed_host\<close> calls, is a parameter.
\<close>

definition uses_relative :: "string list" where
  "uses_relative = ['''', ''ftp'', ''http'', ''gopher'', ''nntp'', ''imap'',
     ''wais'', ''file'', ''https'', ''shttp'', ''mms'',
     ''prospero'', ''rtsp'', ''rtsps'', ''rtspu'', ''sftp'',
     ''svn'', ''svn+ssh'', ''ws'', ''wss'']"

definition uses_netloc :: "string list" where
  "uses_netloc = ['''', ''ftp'', ''http'', ''gopher'', ''nntp'', ''telnet'',
     ''imap'', ''wais'', ''file'', ''mms'', ''https'', ''shttp'',
     ''snews'', ''prospero'', ''rtsp'', ''rtsps'', ''rtspu'', ''rsync'',
     ''svn'', ''svn+ssh'', ''sftp'', ''nfs'', ''git'', ''git+ssh'',
     ''ws'', ''wss'']"

definition uses_params :: "string list" where
  "uses_params = ['''', ''ftp'', ''hdl'', ''prospero'', ''http'', ''imap'',
     ''https'', ''shttp'', ''rtsp'', ''rtsps'', ''rtspu'', ''sip'',
     ''sips'', ''mms'', ''sftp'', ''tel'']"

definition ascii_lowercase :: string where
  "ascii_lowercase = ''abcdefghijklmnopqrstuvwxyz''"

definition ascii_uppercase :: string where
  "ascii_uppercase = ''ABCDEFGHIJKLMNOPQRSTUVWXYZ''"

definition scheme_chars :: string where
  "scheme_chars = ascii_lowercase @ ascii_uppercase @ ''0123456789'' @ ''+-.''"

text \<open>\<^verbatim>\<open>_WHATWG_C0_CONTROL_OR_SPACE\<close>: the characters 0x00 to 0x20.\<close>

definition c0_control_or_space :: string where
  "c0_control_or_space =
     [CHR 0x00, CHR 0x01, CHR 0x02, CHR 0x03, CHR 0x04, CHR 0x05, CHR 0x06, CHR 0x07,
      CHR 0x08, CHR 0x09, CHR 0x0A, CHR 0x0B, CHR 0x0C, CHR 0x0D, CHR 0x0E, CHR 0x0F,
      CHR 0x10, CHR 0x11, CHR 0x12, CHR 0x13, CHR 0x14, CHR 0x15, CHR 0x16, CHR 0x17,
      CHR 0x18, CHR 0x19, CHR 0x1A, CHR 0x1B, CHR 0x1C, CHR 0x1D, CHR 0x1E, CHR 0x1F,
      CHR 0x20]"

text \<open>\<^verbatim>\<open>_UNSAFE_URL_BYTES_TO_REMOVE\<close>: tab, carriage return, line feed.\<close>

definition unsafe_url_bytes_to_remove :: string where
  "unsafe_url_bytes_to_remove = [CHR 0x09, CHR 0x0D, CHR 0x0A]"

text \<open>\<^verbatim>\<open>str.lower\<close>, on the characters a scheme is made of.\<close>

definition lower_char :: "char \<Rightarrow> char" where
  "lower_char c = (case map_of (zip ascii_uppercase ascii_lowercase) c of
                     Some l \<Rightarrow> l | None \<Rightarrow> c)"

text \<open>\<^verbatim>\<open>s.find(c)\<close>, \<^verbatim>\<open>s.find(c, start)\<close> and \<^verbatim>\<open>s.rfind(c)\<close>, with \<open>None\<close> for -1.\<close>

definition find_char :: "char \<Rightarrow> string \<Rightarrow> nat option" where
  "find_char c s =
     (if c \<in> set s then Some (length (takeWhile (\<lambda>x. x \<noteq> c) s)) else None)"

definition find_from :: "char \<Rightarrow> nat \<Rightarrow> string \<Rightarrow> nat option" where
  "find_from c start s =
     (case find_char c (drop start s) of None \<Rightarrow> None | Some i \<Rightarrow> Some (start + i))"

definition rfind_char :: "char \<Rightarrow> string \<Rightarrow> nat option" where
  "rfind_char c s =
     (if c \<in> set s then Some (length s - 1 - length (takeWhile (\<lambda>x. x \<noteq> c) (rev s)))
      else None)"

text \<open>\<^verbatim>\<open>s.split(c, 1)\<close> for a string that contains \<open>c\<close>: the text before the first
  \<open>c\<close> and the text after it.\<close>

definition split_once :: "char \<Rightarrow> string \<Rightarrow> string \<times> string" where
  "split_once c s = (takeWhile (\<lambda>x. x \<noteq> c) s, drop 1 (dropWhile (\<lambda>x. x \<noteq> c) s))"

definition splitparams :: "string \<Rightarrow> string \<times> string" where
  "splitparams url =
     (if CHR ''/'' \<in> set url then
        (case find_from CHR '';'' (the (rfind_char CHR ''/'' url)) url of
           None \<Rightarrow> (url, [])
         | Some i \<Rightarrow> (take i url, drop (i + 1) url))
      else
        (case find_char CHR '';'' url of
           None \<Rightarrow> (butlast url, url)
         | Some i \<Rightarrow> (take i url, drop (i + 1) url)))"

definition splitnetloc :: "string \<Rightarrow> nat \<Rightarrow> string \<times> string" where
  "splitnetloc url start =
     (let delim = fold (\<lambda>c delim. case find_from c start url of
                                     Some wdelim \<Rightarrow> min delim wdelim
                                   | None \<Rightarrow> delim)
                       ''/?#'' (length url)
      in (take (delim - start) (drop start url), drop delim url))"

datatype ip_version = IPv4Address | IPv6Address

text \<open>The regular expression \<^verbatim>\<open>\Av[a-fA-F0-9]+\..+\Z\<close>, for a host name that starts
  with \<open>v\<close>.\<close>

definition ipvfuture_match :: "string \<Rightarrow> bool" where
  "ipvfuture_match hostname =
     (let hexdigits = ''abcdefABCDEF0123456789'';
          after_v = drop 1 hostname;
          digits = takeWhile (\<lambda>c. c \<in> set hexdigits) after_v;
          rest = dropWhile (\<lambda>c. c \<in> set hexdigits) after_v
      in take 1 hostname = ''v'' \<and> digits \<noteq> [] \<and> take 1 rest = ''.''
         \<and> drop 1 rest \<noteq> [] \<and> CHR 0x0A \<notin> set (drop 1 rest))"

definition check_bracketed_host ::
    "(string \<Rightarrow> ip_version option) \<Rightarrow> string \<Rightarrow> error + unit" where
  "check_bracketed_host ip_address hostname =
     (if take 1 hostname = ''v'' then
        (if ipvfuture_match hostname then Inr ()
         else Inl (ValueError ''IPvFuture address is invalid''))
      else
        (case ip_address hostname of
           None \<Rightarrow> Inl (ValueError ''does not appear to be an IPv4 or IPv6 address'')
         | Some IPv4Address \<Rightarrow> Inl (ValueError ''An IPv4 address cannot be in brackets'')
         | Some IPv6Address \<Rightarrow> Inr ()))"

text \<open>\<open>urlsplit\<close> returns (scheme, netloc, path, query, fragment).\<close>

definition urlsplit ::
    "(string \<Rightarrow> ip_version option) \<Rightarrow> string \<Rightarrow> string
      \<Rightarrow> error + string \<times> string \<times> string \<times> string \<times> string" where
  "urlsplit ip_address url scheme =
     (let url = lstrip c0_control_or_space url;
          scheme = strip c0_control_or_space scheme;
          url = filter (\<lambda>c. c \<notin> set unsafe_url_bytes_to_remove) url;
          scheme = filter (\<lambda>c. c \<notin> set unsafe_url_bytes_to_remove) scheme;
          (scheme, url) =
            (case find_char CHR '':'' url of
               None \<Rightarrow> (scheme, url)
             | Some i \<Rightarrow>
                 if 0 < i \<and> hd url \<in> set (ascii_lowercase @ ascii_uppercase)
                    \<and> list_all (\<lambda>c. c \<in> set scheme_chars) (take i url)
                 then (map lower_char (take i url), drop (i + 1) url)
                 else (scheme, url))
      in err_bind
           (if take 2 url = ''//'' then
              (case splitnetloc url 2 of (netloc, url) \<Rightarrow>
                 if (CHR ''['' \<in> set netloc \<and> CHR '']'' \<notin> set netloc)
                    \<or> (CHR '']'' \<in> set netloc \<and> CHR ''['' \<notin> set netloc)
                 then Inl (ValueError ''Invalid IPv6 URL'')
                 else if CHR ''['' \<in> set netloc \<and> CHR '']'' \<in> set netloc then
                   (let bracketed_host =
                          takeWhile (\<lambda>c. c \<noteq> CHR '']'')
                            (drop 1 (dropWhile (\<lambda>c. c \<noteq> CHR ''['') netloc))
                    in err_bind (check_bracketed_host ip_address bracketed_host)
                         (\<lambda>_. Inr (netloc, url)))
                 else Inr (netloc, url))
            else Inr ([], url))
           (\<lambda>(netloc, url).
              let (url, fragment) =
                    (if CHR ''#'' \<in> set url then split_once CHR ''#'' url else (url, []));
                  (url, query) =
                    (if CHR ''?'' \<in> set url then split_once CHR ''?'' url else (url, []))
              in Inr (scheme, netloc, url, query, fragment)))"

text \<open>\<open>urlparse\<close> returns (scheme, netloc, path, params, query, fragment).\<close>

definition urlparse ::
    "(string \<Rightarrow> ip_version option) \<Rightarrow> string \<Rightarrow> string
      \<Rightarrow> error + string \<times> string \<times> string \<times> string \<times> string \<times> string" where
  "urlparse ip_address url scheme =
     err_bind (urlsplit ip_address url scheme)
       (\<lambda>(scheme, netloc, url, query, fragment).
          let (url, params) =
                (if scheme \<in> set uses_params \<and> CHR '';'' \<in> set url then splitparams url
                 else (url, []))
          in Inr (scheme, netloc, url, params, query, fragment))"

definition urlunsplit :: "string \<times> string \<times> string \<times> string \<times> string \<Rightarrow> string" where
  "urlunsplit components =
     (case components of (scheme, netloc, url, query, fragment) \<Rightarrow>
        (let url = (if netloc \<noteq> [] \<or> (scheme \<noteq> [] \<and> scheme \<in> set uses_netloc)
                       \<or> take 2 url = ''//''
                    then ''//'' @ netloc
                         @ (if url \<noteq> [] \<and> take 1 url \<noteq> ''/'' then ''/'' @ url else url)
                    else url);
             url = (if scheme \<noteq> [] then scheme @ '':'' @ url else url);
             url = (if query \<noteq> [] then url @ ''?'' @ query else url);
             url = (if fragment \<noteq> [] then url @ ''#'' @ fragment else url)
         in url))"

definition urlunparse ::
    "string \<times> string \<times> string \<times> string \<times> string \<times> string \<Rightarrow> string" where
  "urlunparse components =
     (case components of (scheme, netloc, url, params, query, fragment) \<Rightarrow>
        (let url = (if params \<noteq> [] then url @ '';'' @ params else url)
         in urlunsplit (scheme, netloc, url, query, fragment)))"

text \<open>\<^verbatim>\<open>segments[1:-1] = filter(None, segments[1:-1])\<close>: the empty strings between the
  first and the last element are dropped.\<close>

definition filter_inner :: "string list \<Rightarrow> string list" where
  "filter_inner segments =
     (case segments of
        [] \<Rightarrow> []
      | [x] \<Rightarrow> [x]
      | x # rest \<Rightarrow> x # filter (\<lambda>s. s \<noteq> []) (butlast rest) @ [last rest])"

text \<open>One round of the loop over the segments: \<open>..\<close> pops (when there is something to
  pop), \<open>.\<close> is skipped, anything else is appended.\<close>

definition resolve_step :: "string \<Rightarrow> string list \<Rightarrow> string list" where
  "resolve_step seg resolved_path =
     (if seg = ''..'' then butlast resolved_path
      else if seg = ''.'' then resolved_path
      else resolved_path @ [seg])"

definition urljoin ::
    "(string \<Rightarrow> ip_version option) \<Rightarrow> string \<Rightarrow> string \<Rightarrow> error + string" where
  "urljoin ip_address base url =
     (if base = [] then Inr url
      else if url = [] then Inr base
      else
        err_bind (urlparse ip_address base [])
          (\<lambda>(bscheme, bnetloc, bpath, bparams, bquery, bfragment).
        err_bind (urlparse ip_address url bscheme)
          (\<lambda>(scheme, netloc, path, params, query, fragment).
             if scheme \<noteq> bscheme \<or> scheme \<notin> set uses_relative then Inr url
             else if scheme \<in> set uses_netloc \<and> netloc \<noteq> [] then
               Inr (urlunparse (scheme, netloc, path, params, query, fragment))
             else
               (let netloc = (if scheme \<in> set uses_netloc then bnetloc else netloc) in
                if path = [] \<and> params = [] then
                  Inr (urlunparse (scheme, netloc, bpath, bparams,
                         (if query = [] then bquery else query), fragment))
                else
                  (let base_parts = split_on CHR ''/'' bpath;
                       base_parts = (if last base_parts \<noteq> [] then butlast base_parts
                                     else base_parts);
                       segments = (if take 1 path = ''/'' then split_on CHR ''/'' path
                                   else filter_inner (base_parts @ split_on CHR ''/'' path));
                       resolved_path = fold resolve_step segments [];
                       resolved_path = (if last segments = ''.'' \<or> last segments = ''..''
                                        then resolved_path @ [[]] else resolved_path);
                       joined = str_join ''/'' resolved_path
                   in Inr (urlunparse (scheme, netloc,
                             (if joined = [] then ''/'' else joined),
                             params, query, fragment)))))))"

section \<open>The environment of a backend call\<close>

text \<open>
  What a call reaches outside the module: the HTTP library (\<open>send\<close> is
  \<^verbatim>\<open>Session.get\<close>/\<^verbatim>\<open>Session.post\<close>: it returns the final response or raises, for example
  on a connection failure or a timeout), \<^verbatim>\<open>tempfile.mkdtemp()\<close>,
  \<^verbatim>\<open>next(tempfile._get_candidate_names())\<close>, \<^verbatim>\<open>os.mkfifo\<close> and \<^verbatim>\<open>ipaddress.ip_address\<close>.
\<close>

record env =
  send :: "request \<Rightarrow> error + response"
  mkdtemp :: "error + string"
  candidate_name :: string
  mkfifo :: "string \<Rightarrow> error + unit"
  ip_address :: "string \<Rightarrow> ip_version option"

text \<open>\<^verbatim>\<open>os.path.join(a, b)\<close> on a POSIX system.\<close>

definition os_path_join :: "string \<Rightarrow> string \<Rightarrow> string" where
  "os_path_join a b =
     (if take 1 b = ''/'' then b
      else if a = [] \<or> take 1 (rev a) = ''/'' then a @ b
      else a @ ''/'' @ b)"

text \<open>
  \<open>create_temporary_fifo\<close> makes the pipe and starts the thread that opens it for
  writing and writes \<open>data\<close>; the model returns the path together with the bytes that
  thread holds. The thread itself is not modelled.
\<close>

definition create_temporary_fifo :: "env \<Rightarrow> string \<Rightarrow> error + fifo" where
  "create_temporary_fifo e data =
     err_bind (mkdtemp e) (\<lambda>tmpdir.
       let path = os_path_join tmpdir (candidate_name e) in
       err_bind (mkfifo e path) (\<lambda>_.
         Inr \<lparr>fifo_path = path, fifo_data = data\<rparr>))"

text \<open>
  The keyword arguments of a backend: a dictionary from parameter names to strings (the
  plugin's schema declares every field of type string). \<open>kwargs_item\<close> is
  \<^verbatim>\<open>kwargs[k]\<close>; \<^verbatim>\<open>kwargs.get(k)\<close> is \<open>kwargs k\<close>. \<open>truthy_value v\<close> is the string
  under \<^verbatim>\<open>if v:\<close>, that is when \<open>v\<close> is neither \<^verbatim>\<open>None\<close> nor empty.
\<close>

type_synonym kwargs = "string \<Rightarrow> string option"

definition kwargs_item :: "kwargs \<Rightarrow> string \<Rightarrow> error + string" where
  "kwargs_item kwargs k = (case kwargs k of None \<Rightarrow> Inl (KeyError k) | Some v \<Rightarrow> Inr v)"

definition truthy_value :: "string option \<Rightarrow> string option" where
  "truthy_value v = (case v of None \<Rightarrow> None | Some s \<Rightarrow> if s = [] then None else Some s)"

text \<open>\<^verbatim>\<open>obj[k]\<close> for a decoded JSON value and a string key: KeyError when a dictionary
  lacks the key, TypeError when the value is not a dictionary.\<close>

fun getitem :: "json \<Rightarrow> string \<Rightarrow> error + json" where
  "getitem (JObj kvs) k = (case map_of kvs k of None \<Rightarrow> Inl (KeyError k) | Some v \<Rightarrow> Inr v)"
| "getitem _ k = Inl TypeError"

text \<open>\<^verbatim>\<open>Response.raise_for_status()\<close> of the requests library raises HTTPError, holding
  the response, for a status code from 400 to 599, and returns otherwise.\<close>

definition raise_for_status :: "response \<Rightarrow> error + unit" where
  "raise_for_status r =
     (if 400 \<le> status_code r \<and> status_code r < 600 then Inl (HTTPError r) else Inr ())"

definition response_json :: "response \<Rightarrow> error + json" where
  "response_json r = (case decoded r of None \<Rightarrow> Inl JSONDecodeError | Some j \<Rightarrow> Inr j)"

section \<open>kv_backend\<close>

text \<open>The local variables bound at the head of \<open>kv_backend\<close>.\<close>

record kv_locals =
  kv_token :: string
  kv_url :: string
  kv_secret_path :: string
  kv_secret_key :: "string option"
  kv_cacert :: "string option"
  kv_api_version :: string

definition kv_read_kwargs :: "env \<Rightarrow> kwargs \<Rightarrow> error + kv_locals" where
  "kv_read_kwargs e kwargs =
     err_bind (kwargs_item kwargs ''token'') (\<lambda>token.
     err_bind (kwargs_item kwargs ''url'') (\<lambda>server_url.
     err_bind (urljoin (ip_address e) server_url ''v1'') (\<lambda>url.
     err_bind (kwargs_item kwargs ''secret_path'') (\<lambda>secret_path.
     err_bind (kwargs_item kwargs ''api_version'') (\<lambda>api_version.
       Inr \<lparr>kv_token = token, kv_url = url, kv_secret_path = secret_path,
            kv_secret_key = kwargs ''secret_key'', kv_cacert = kwargs ''cacert'',
            kv_api_version = api_version\<rparr>)))))"

text \<open>
  From \<^verbatim>\<open>request_kwargs = { 'timeout': 30 }\<close> to the arguments of \<^verbatim>\<open>sess.get\<close>: the
  request that the call sends.
\<close>

definition kv_request :: "env \<Rightarrow> kwargs \<Rightarrow> kv_locals \<Rightarrow> error + request" where
  "kv_request e kwargs l =
     err_bind (case truthy_value (kv_cacert l) of
                 None \<Rightarrow> Inr None
               | Some cacert \<Rightarrow> err_bind (create_temporary_fifo e cacert) (\<lambda>f. Inr (Some f)))
       (\<lambda>verify.
          let authorization = ''Bearer '' @ kv_token l in
          if kv_api_version l = ''v2'' then
            (let params = (case truthy_value (kwargs ''secret_version'') of
                             None \<Rightarrow> []
                           | Some secret_version \<Rightarrow> [(''version'', secret_version)]);
                 (mount_point, path) = split_secret_path (kv_secret_path l);
                 request_url =
                   rstrip ''/'' (str_join ''/'' ([kv_url l, mount_point, ''data''] @ path))
             in Inr \<lparr>req_method = ''GET'', req_url = request_url,
                     req_authorization = authorization, req_timeout = 30,
                     req_verify = verify, req_params = params, req_json = None\<rparr>)
          else
            (let request_url = rstrip ''/'' (str_join ''/'' [kv_url l, kv_secret_path l])
             in Inr \<lparr>req_method = ''GET'', req_url = request_url,
                     req_authorization = authorization, req_timeout = 30,
                     req_verify = verify, req_params = [], req_json = None\<rparr>))"

text \<open>\<^verbatim>\<open>try: block  except KeyError: raise err\<close>: a KeyError of the block is replaced by
  \<open>err\<close>, any other outcome is kept.\<close>

definition except_key_error :: "error + 'a \<Rightarrow> error \<Rightarrow> error + 'a" where
  "except_key_error block err =
     (case block of
        Inl (KeyError _) \<Rightarrow> Inl err
      | outcome \<Rightarrow> outcome)"

text \<open>From \<^verbatim>\<open>response.raise_for_status()\<close> to the end of \<open>kv_backend\<close>.\<close>

definition kv_result :: "kv_locals \<Rightarrow> response \<Rightarrow> error + json" where
  "kv_result l response =
     err_bind
       (if kv_api_version l = ''v2'' then
          err_bind (raise_for_status response) (\<lambda>_.
          err_bind (response_json response) (\<lambda>j. getitem j ''data''))
        else
          err_bind (raise_for_status response) (\<lambda>_. response_json response))
       (\<lambda>json.
          case truthy_value (kv_secret_key l) of
            Some secret_key \<Rightarrow>
              except_key_error
                (err_bind (getitem json ''data'') (\<lambda>d. getitem d secret_key))
                (RuntimeError (secret_key @ '' is not present at '' @ kv_secret_path l))
          | None \<Rightarrow> getitem json ''data'')"

definition kv_backend :: "env \<Rightarrow> kwargs \<Rightarrow> error + json" where
  "kv_backend e kwargs =
     err_bind (kv_read_kwargs e kwargs) (\<lambda>l.
     err_bind (kv_request e kwargs l) (\<lambda>req.
     err_bind (send e req) (\<lambda>response.
       kv_result l response)))"

section \<open>ssh_backend\<close>

record ssh_locals =
  ssh_token :: string
  ssh_url :: string
  ssh_secret_path :: string
  ssh_role :: string
  ssh_cacert :: "string option"

definition ssh_read_kwargs :: "env \<Rightarrow> kwargs \<Rightarrow> error + ssh_locals" where
  "ssh_read_kwargs e kwargs =
     err_bind (kwargs_item kwargs ''token'') (\<lambda>token.
     err_bind (kwargs_item kwargs ''url'') (\<lambda>server_url.
     err_bind (urljoin (ip_address e) server_url ''v1'') (\<lambda>url.
     err_bind (kwargs_item kwargs ''secret_path'') (\<lambda>secret_path.
     err_bind (kwargs_item kwargs ''role'') (\<lambda>role.
       Inr \<lparr>ssh_token = token, ssh_url = url, ssh_secret_path = secret_path,
            ssh_role = role, ssh_cacert = kwargs ''cacert''\<rparr>)))))"

definition ssh_request :: "env \<Rightarrow> kwargs \<Rightarrow> ssh_locals \<Rightarrow> error + request" where
  "ssh_request e kwargs l =
     err_bind (case truthy_value (ssh_cacert l) of
                 None \<Rightarrow> Inr None
               | Some cacert \<Rightarrow> err_bind (create_temporary_fifo e cacert) (\<lambda>f. Inr (Some f)))
       (\<lambda>verify.
     err_bind (kwargs_item kwargs ''public_key'') (\<lambda>public_key.
          let payload = [(''public_key'', JStr public_key)];
              payload = (case truthy_value (kwargs ''valid_principals'') of
                           None \<Rightarrow> payload
                         | Some valid_principals \<Rightarrow>
                             payload @ [(''valid_principals'', JStr valid_principals)]);
              authorization = ''Bearer '' @ ssh_token l;
              request_url =
                rstrip ''/'' (str_join ''/'' [ssh_url l, ssh_secret_path l, ''sign'', ssh_role l])
          in Inr \<lparr>req_method = ''POST'', req_url = request_url,
                  req_authorization = authorization, req_timeout = 30,
                  req_verify = verify, req_params = [], req_json = Some (JObj payload)\<rparr>))"

definition ssh_result :: "response \<Rightarrow> error + json" where
  "ssh_result resp =
     err_bind (raise_for_status resp) (\<lambda>_.
     err_bind (response_json resp) (\<lambda>j.
     err_bind (getitem j ''data'') (\<lambda>d.
       getitem d ''signed_key'')))"

definition ssh_backend :: "env \<Rightarrow> kwargs \<Rightarrow> error + json" where
  "ssh_backend e kwargs =
     err_bind (ssh_read_kwargs e kwargs) (\<lambda>l.
     err_bind (ssh_request e kwargs l) (\<lambda>req.
     err_bind (send e req) (\<lambda>resp.
       ssh_result resp)))"

section \<open>Example environments and arguments\<close>

text \<open>
  \<open>env_replying status j\<close> is an environment whose HTTP library answers every request
  with status \<open>status\<close> and a body that decodes to \<open>j\<close>. Its
  \<^verbatim>\<open>ipaddress.ip_address\<close> accepts no host, so the server URLs of the examples have no
  bracketed host. A dictionary of keyword arguments is written \<open>map_of\<close> of its items.
\<close>

definition env_replying :: "int \<Rightarrow> json option \<Rightarrow> env" where
  "env_replying status j =
     \<lparr>send = (\<lambda>req. Inr \<lparr>status_code = status, decoded = j\<rparr>),
      mkdtemp = Inr ''/tmp/tmpk3v9x2ab'',
      candidate_name = ''q8w1z0rt'',
      mkfifo = (\<lambda>path. Inr ()),
      ip_address = (\<lambda>host. None)\<rparr>"

section \<open>Properties of the decomposition\<close>

lemma split_on_no_sep: "c \<notin> set s \<Longrightarrow> split_on c s = [s]"
  by (induction s) auto

lemma lstrip_no_sep: "c \<notin> set s \<Longrightarrow> lstrip [c] s = s"
  by (cases s) (auto simp: lstrip_def)

lemma path_parts_single:
  assumes "CHR ''/'' \<notin> set s"
  shows "path_parts s = (if s = [] \<or> s = ''.'' then [] else [s])"
proof (cases s)
  case Nil
  then show ?thesis by (simp add: path_parts_def)
next
  case (Cons x xs)
  with assms have "x \<noteq> CHR ''/''" by auto
  with Cons have "splitroot s = ([], [], s)" by (simp add: splitroot_def)
  with assms Cons show ?thesis by (simp add: path_parts_def)
qed

text \<open>
  C4. The decomposition of the secret path into mount point and sub-path never fails:
  whatever exception the \<^verbatim>\<open>try\<close> block raises is handled, and then the whole string is
  the mount point and the sub-path is empty. For a single-segment input (a non-empty
  string without a slash) the mount point is the input and the sub-path is empty.
\<close>

theorem split_secret_path_total:
  "(\<exists>mount_point path. split_secret_path s = (mount_point, path)
       \<and> (split_secret_path_try s = Inr (mount_point, path)
          \<or> (\<exists>e. split_secret_path_try s = Inl e) \<and> mount_point = s \<and> path = []))
   \<and> (s \<noteq> [] \<and> CHR ''/'' \<notin> set s \<longrightarrow> split_secret_path s = (s, []))"
proof (intro conjI impI)
  show "\<exists>mount_point path. split_secret_path s = (mount_point, path)
       \<and> (split_secret_path_try s = Inr (mount_point, path)
          \<or> (\<exists>e. split_secret_path_try s = Inl e) \<and> mount_point = s \<and> path = [])"
    by (cases "split_secret_path_try s") (auto simp: split_secret_path_def)
next
  assume a: "s \<noteq> [] \<and> CHR ''/'' \<notin> set s"
  then have "lstrip ''/'' s = s" by (simp add: lstrip_no_sep)
  with a show "split_secret_path s = (s, [])"
    by (simp add: split_secret_path_def split_secret_path_try_def unpack_first_def
        path_parts_single)
qed

theorem split_secret_path_total_witness:
  "split_secret_path ''secret'' = (''secret'', [])
   \<and> split_secret_path ''.'' = (''.'', [])
   \<and> split_secret_path_try ''.'' =
       Inl (ValueError ''not enough values to unpack (expected at least 1, got 0)'')"
proof -
  have "split_secret_path ''secret'' = (''secret'', [])"
    using split_secret_path_total [of "''secret''"] by simp
  moreover have "split_secret_path ''.'' = (''.'', [])"
    using split_secret_path_total [of "''.''"] by simp
  moreover have "split_secret_path_try ''.'' =
       Inl (ValueError ''not enough values to unpack (expected at least 1, got 0)'')"
    by (simp add: split_secret_path_try_def unpack_first_def path_parts_def splitroot_def
        lstrip_def)
  ultimately show ?thesis by simp
qed

lemma split_on_nonempty: "split_on c s \<noteq> []"
  by (induction s) (auto split: list.splits)

lemma filter_split_on_lstrip:
  "filter (\<lambda>x. x \<noteq> [] \<and> Q x) (split_on c (lstrip [c] s))
     = filter (\<lambda>x. x \<noteq> [] \<and> Q x) (split_on c s)"
  by (induction s) (simp_all add: lstrip_def)

lemma path_parts_lstrip:
  "path_parts (lstrip ''/'' s)
     = filter (\<lambda>x. x \<noteq> [] \<and> x \<noteq> ''.'') (split_on CHR ''/'' s)"
proof -
  let ?t = "lstrip ''/'' s"
  have r: "splitroot ?t = ([], [], ?t)"
  proof (cases ?t)
    case Nil
    then show ?thesis by (simp add: splitroot_def)
  next
    case (Cons x xs)
    then have "x \<noteq> CHR ''/''"
      using hd_dropWhile [of "\<lambda>c. c \<in> set ''/''" s] by (auto simp: lstrip_def)
    with Cons show ?thesis by (simp add: splitroot_def)
  qed
  have "path_parts ?t = filter (\<lambda>x. x \<noteq> [] \<and> x \<noteq> ''.'') (split_on CHR ''/'' ?t)"
  proof (cases "?t = []")
    case True
    then show ?thesis by (simp add: path_parts_def)
  next
    case False
    show ?thesis
    proof (cases "CHR ''/'' \<in> set ?t")
      case True
      with False r show ?thesis by (simp add: path_parts_def rev_filter)
    next
      case no: False
      with False r show ?thesis by (simp add: path_parts_def split_on_no_sep)
    qed
  qed
  then show ?thesis by (simp only: filter_split_on_lstrip)
qed

text \<open>
  The decomposition in terms of \<^verbatim>\<open>str.split\<close>: the segments of the secret path are the
  pieces between its slashes that are neither empty nor \<open>.\<close>; the mount point is the
  first segment and the sub-path holds the others; a path without segments is its own
  mount point.
\<close>

lemma split_secret_path_segments:
  "split_secret_path s =
     (case filter (\<lambda>x. x \<noteq> [] \<and> x \<noteq> ''.'') (split_on CHR ''/'' s) of
        [] \<Rightarrow> (s, [])
      | mount_point # path \<Rightarrow> (mount_point, path))"
  by (simp add: split_secret_path_def split_secret_path_try_def unpack_first_def
      path_parts_lstrip split: list.splits)

section \<open>Properties of the backends\<close>

lemma err_bind_Inl [simp]: "err_bind (Inl e) f = Inl e"
  by (simp add: err_bind_def)

lemma err_bind_Inr [simp]: "err_bind (Inr x) f = f x"
  by (simp add: err_bind_def)

lemma err_bind_eq_Inr: "err_bind m f = Inr y \<longleftrightarrow> (\<exists>x. m = Inr x \<and> f x = Inr y)"
  by (cases m) simp_all


lemma except_key_error_KeyError [simp]:
  "except_key_error (Inl (KeyError k)) err = Inl err"
  by (simp add: except_key_error_def)

lemma except_key_error_Inr [simp]: "except_key_error (Inr x) err = Inr x"
  by (simp add: except_key_error_def)

lemma kwargs_item_eq_Inr: "kwargs_item kwargs k = Inr v \<longleftrightarrow> kwargs k = Some v"
  by (simp add: kwargs_item_def split: option.splits)

lemma kv_read_kwargs_Inr:
  assumes "kv_read_kwargs e kwargs = Inr l"
  shows "kwargs ''token'' = Some (kv_token l)"
    and "\<exists>server_url. kwargs ''url'' = Some server_url
            \<and> urljoin (ip_address e) server_url ''v1'' = Inr (kv_url l)"
    and "kwargs ''secret_path'' = Some (kv_secret_path l)"
    and "kwargs ''api_version'' = Some (kv_api_version l)"
    and "kv_secret_key l = kwargs ''secret_key''"
    and "kv_cacert l = kwargs ''cacert''"
  using assms by (auto simp: kv_read_kwargs_def err_bind_eq_Inr kwargs_item_eq_Inr)

lemma raise_for_status_eq_Inr:
  "raise_for_status r = Inr u \<longleftrightarrow> \<not> (400 \<le> status_code r \<and> status_code r < 600)"
  by (simp add: raise_for_status_def)





lemma str_join_data:
  "str_join ''/'' ([u, m, ''data''] @ path) =
     u @ ''/'' @ m @ ''/data'' @ (if path = [] then [] else ''/'' @ str_join ''/'' path)"
  by (cases path) simp_all

lemma truthy_value_cases:
  "truthy_value v = (case v of None \<Rightarrow> None | Some s \<Rightarrow> if s = [] then None else Some s)"
  by (simp add: truthy_value_def)

lemma kv_request_Inr:
  assumes "kv_request e kwargs l = Inr req"
    and "split_secret_path (kv_secret_path l) = (mount_point, path)"
  shows "req_method req = ''GET''"
    and "req_authorization req = ''Bearer '' @ kv_token l"
    and "req_timeout req = 30"
    and "req_json req = None"
    and "kv_api_version l = ''v2'' \<Longrightarrow>
           req_url req =
             rstrip ''/'' (str_join ''/'' ([kv_url l, mount_point, ''data''] @ path))"
    and "kv_api_version l = ''v2'' \<Longrightarrow>
           req_params req = (case truthy_value (kwargs ''secret_version'') of
                               None \<Rightarrow> [] | Some v \<Rightarrow> [(''version'', v)])"
    and "kv_api_version l \<noteq> ''v2'' \<Longrightarrow>
           req_url req = rstrip ''/'' (str_join ''/'' [kv_url l, kv_secret_path l])"
    and "kv_api_version l \<noteq> ''v2'' \<Longrightarrow> req_params req = []"
  using assms
  by (auto simp: kv_request_def err_bind_eq_Inr Let_def simp del: str_join.simps
      split: if_splits)

lemma takeWhile_eq_replicate:
  "takeWhile (\<lambda>x. x = c) xs = replicate (length (takeWhile (\<lambda>x. x = c) xs)) c"
proof -
  have "\<forall>y \<in> set (takeWhile (\<lambda>x. x = c) xs). y = c"
    by (auto dest: set_takeWhileD)
  then show ?thesis by (simp add: replicate_length_same)
qed

lemma rstrip_replicate:
  "s = rstrip [c] s @ replicate (length s - length (rstrip [c] s)) c"
proof -
  let ?t = "takeWhile (\<lambda>x. x = c) (rev s)"
  let ?d = "dropWhile (\<lambda>x. x = c) (rev s)"
  have "rev s = ?t @ ?d" by simp
  then have "s = rev ?d @ rev ?t" by (metis rev_append rev_rev_ident)
  moreover have "rev ?t = replicate (length ?t) c"
    by (metis takeWhile_eq_replicate rev_replicate)
  moreover have "length s - length (rev ?d) = length ?t"
    by (metis \<open>rev s = ?t @ ?d\<close> add_diff_cancel_right' length_append length_rev)
  ultimately show ?thesis by (simp add: rstrip_def)
qed

lemma rstrip_no_trailing:
  "\<not> (rstrip [c] s \<noteq> [] \<and> last (rstrip [c] s) = c)"
proof
  let ?d = "dropWhile (\<lambda>x. x = c) (rev s)"
  assume a: "rstrip [c] s \<noteq> [] \<and> last (rstrip [c] s) = c"
  then have ne: "?d \<noteq> []" by (simp add: rstrip_def)
  then have "hd ?d \<noteq> c" using hd_dropWhile [of "\<lambda>x. x = c" "rev s"] by simp
  moreover from a ne have "hd ?d = c" by (simp add: rstrip_def last_rev)
  ultimately show False by simp
qed

lemma rstrip_is_stripped:
  "(\<exists>n. s = rstrip [c] s @ replicate n c) \<and> \<not> (rstrip [c] s \<noteq> [] \<and> last (rstrip [c] s) = c)"
  using rstrip_replicate [of s c] rstrip_no_trailing [of c s] by blast

lemma kv_request_url_rstrip:
  assumes "kv_read_kwargs e kwargs = Inr l" and "kv_request e kwargs l = Inr req"
  shows "req_method req = ''GET''
       \<and> req_url req = rstrip ''/''
           (if kwargs ''api_version'' = Some ''v2'' then
              (case split_secret_path (kv_secret_path l) of (mount_point, path) \<Rightarrow>
                 kv_url l @ ''/'' @ mount_point @ ''/data''
                   @ (if path = [] then [] else ''/'' @ str_join ''/'' path))
            else kv_url l @ ''/'' @ kv_secret_path l)
       \<and> req_params req =
           (if kwargs ''api_version'' = Some ''v2'' then
              (case kwargs ''secret_version'' of
                 None \<Rightarrow> []
               | Some v \<Rightarrow> if v = [] then [] else [(''version'', v)])
            else [])"
proof -
  obtain mount_point path where
    sp: "split_secret_path (kv_secret_path l) = (mount_point, path)"
    by (cases "split_secret_path (kv_secret_path l)")
  note r = kv_request_Inr [OF assms(2) sp]
  have v: "kwargs ''api_version'' = Some (kv_api_version l)"
    by (rule kv_read_kwargs_Inr(4) [OF assms(1)])
  show ?thesis
  proof (cases "kv_api_version l = ''v2''")
    case True
    have "req_url req =
            rstrip ''/'' (kv_url l @ ''/'' @ mount_point @ ''/data''
                          @ (if path = [] then [] else ''/'' @ str_join ''/'' path))"
      using r(5) [OF True] by (simp only: str_join_data)
    moreover have "req_params req =
                 (case kwargs ''secret_version'' of
                    None \<Rightarrow> []
                  | Some v \<Rightarrow> if v = [] then [] else [(''version'', v)])"
      using r(6) [OF True] by (simp add: truthy_value_def split: option.splits)
    ultimately show ?thesis using True r(1) v sp by simp
  next
    case False
    with r(1) r(7) [OF False] r(8) [OF False] v show ?thesis
      by simp
  qed
qed

text \<open>
  C2. The URL of the request \<open>kv_backend\<close> sends. The base is \<open>urljoin\<close> of the
  caller's server URL and \<open>v1\<close>, the location is the caller's \<open>secret_path\<close>. For
  engine version \<open>v2\<close> the URL is base/mount_point/data, followed by /sub_path when the
  sub-path is not empty, and the query parameter \<open>version\<close> is attached exactly when a
  non-empty version string was supplied; otherwise (\<open>v1\<close>) it is base/location, with no
  query parameters. In both, the trailing slashes are stripped: the URL sent is that
  string without the slashes at its end, and does not end in a slash.
\<close>

theorem kv_request_url:
  assumes "kv_read_kwargs e kwargs = Inr l" and "kv_request e kwargs l = Inr req"
  shows "\<exists>server_url base location unstripped n.
           kwargs ''url'' = Some server_url
         \<and> urljoin (ip_address e) server_url ''v1'' = Inr base
         \<and> kwargs ''secret_path'' = Some location
         \<and> unstripped =
             (if kwargs ''api_version'' = Some ''v2'' then
                (case split_secret_path location of (mount_point, path) \<Rightarrow>
                   base @ ''/'' @ mount_point @ ''/data''
                     @ (if path = [] then [] else ''/'' @ str_join ''/'' path))
              else base @ ''/'' @ location)
         \<and> req_method req = ''GET''
         \<and> unstripped = req_url req @ replicate n CHR ''/''
         \<and> \<not> (req_url req \<noteq> [] \<and> last (req_url req) = CHR ''/'')
         \<and> req_url req = rstrip ''/'' unstripped
         \<and> req_params req =
             (if kwargs ''api_version'' = Some ''v2'' then
                (case kwargs ''secret_version'' of
                   None \<Rightarrow> []
                 | Some v \<Rightarrow> if v = [] then [] else [(''version'', v)])
              else [])"
proof -
  from kv_read_kwargs_Inr(2) [OF assms(1)] obtain server_url where
    u: "kwargs ''url'' = Some server_url"
    and j: "urljoin (ip_address e) server_url ''v1'' = Inr (kv_url l)"
    by blast
  have p: "kwargs ''secret_path'' = Some (kv_secret_path l)"
    by (rule kv_read_kwargs_Inr(3) [OF assms(1)])
  define unstripped where "unstripped =
             (if kwargs ''api_version'' = Some ''v2'' then
                (case split_secret_path (kv_secret_path l) of (mount_point, path) \<Rightarrow>
                   kv_url l @ ''/'' @ mount_point @ ''/data''
                     @ (if path = [] then [] else ''/'' @ str_join ''/'' path))
              else kv_url l @ ''/'' @ kv_secret_path l)"
  from kv_request_url_rstrip [OF assms]
  have m: "req_method req = ''GET''" and r: "req_url req = rstrip ''/'' unstripped"
    and q: "req_params req =
             (if kwargs ''api_version'' = Some ''v2'' then
                (case kwargs ''secret_version'' of
                   None \<Rightarrow> []
                 | Some v \<Rightarrow> if v = [] then [] else [(''version'', v)])
              else [])"
    unfolding unstripped_def by blast+
  from rstrip_is_stripped [of unstripped "CHR ''/''"] r obtain n where
    n: "unstripped = req_url req @ replicate n CHR ''/''"
    and t: "\<not> (req_url req \<noteq> [] \<and> last (req_url req) = CHR ''/'')"
    by auto
  from u j p unstripped_def m n t r q show ?thesis by blast
qed

theorem kv_request_url_witness:
  "kv_read_kwargs (env_replying 200 None)
     (map_of [(''url'', ''https://vault.example.com:8200''), (''token'', ''s.Zx81''),
              (''secret_path'', ''kv/app/''), (''api_version'', ''v1'')])
     = Inr \<lparr>kv_token = ''s.Zx81'', kv_url = ''https://vault.example.com:8200/v1'',
             kv_secret_path = ''kv/app/'', kv_secret_key = None,
             kv_cacert = None, kv_api_version = ''v1''\<rparr>
   \<and> kv_request (env_replying 200 None)
     (map_of [(''url'', ''https://vault.example.com:8200''), (''token'', ''s.Zx81''),
              (''secret_path'', ''kv/app/''), (''api_version'', ''v1'')])
     \<lparr>kv_token = ''s.Zx81'', kv_url = ''https://vault.example.com:8200/v1'',
      kv_secret_path = ''kv/app/'', kv_secret_key = None,
      kv_cacert = None, kv_api_version = ''v1''\<rparr>
     = Inr \<lparr>req_method = ''GET'',
             req_url = ''https://vault.example.com:8200/v1/kv/app'',
             req_authorization = ''Bearer s.Zx81'', req_timeout = 30,
             req_verify = None, req_params = [], req_json = None\<rparr>
   \<and> (\<exists>n. ''https://vault.example.com:8200/v1'' @ ''/'' @ ''kv/app/''
            = ''https://vault.example.com:8200/v1/kv/app'' @ replicate n CHR ''/'')
   \<and> kv_read_kwargs (env_replying 200 None)
     (map_of [(''url'', ''https://vault.example.com:8200''), (''token'', ''s.Zx81''),
              (''secret_path'', ''/kv/app/db/''), (''api_version'', ''v2''),
              (''secret_key'', ''foo''), (''secret_version'', ''3'')])
     = Inr \<lparr>kv_token = ''s.Zx81'', kv_url = ''https://vault.example.com:8200/v1'',
             kv_secret_path = ''/kv/app/db/'', kv_secret_key = Some ''foo'',
             kv_cacert = None, kv_api_version = ''v2''\<rparr>
   \<and> kv_request (env_replying 200 None)
     (map_of [(''url'', ''https://vault.example.com:8200''), (''token'', ''s.Zx81''),
              (''secret_path'', ''/kv/app/db/''), (''api_version'', ''v2''),
              (''secret_key'', ''foo''), (''secret_version'', ''3'')])
     \<lparr>kv_token = ''s.Zx81'', kv_url = ''https://vault.example.com:8200/v1'',
      kv_secret_path = ''/kv/app/db/'', kv_secret_key = Some ''foo'',
      kv_cacert = None, kv_api_version = ''v2''\<rparr>
     = Inr \<lparr>req_method = ''GET'',
             req_url = ''https://vault.example.com:8200/v1/kv/data/app/db'',
             req_authorization = ''Bearer s.Zx81'', req_timeout = 30,
             req_verify = None, req_params = [(''version'', ''3'')],
             req_json = None\<rparr>
   \<and> split_secret_path ''/kv/app/db/'' = (''kv'', [''app'', ''db''])"
proof -
  let ?e = "env_replying 200 None"
  let ?kw1 = "map_of [(''url'', ''https://vault.example.com:8200''),
              (''token'', ''s.Zx81''), (''secret_path'', ''kv/app/''),
              (''api_version'', ''v1'')]"
  let ?l1 = "\<lparr>kv_token = ''s.Zx81'', kv_url = ''https://vault.example.com:8200/v1'',
             kv_secret_path = ''kv/app/'', kv_secret_key = None,
             kv_cacert = None, kv_api_version = ''v1''\<rparr>"
  let ?r1 = "\<lparr>req_method = ''GET'',
             req_url = ''https://vault.example.com:8200/v1/kv/app'',
             req_authorization = ''Bearer s.Zx81'', req_timeout = 30,
             req_verify = None, req_params = [], req_json = None\<rparr>"
  let ?kw2 = "map_of [(''url'', ''https://vault.example.com:8200''),
              (''token'', ''s.Zx81''), (''secret_path'', ''/kv/app/db/''),
              (''api_version'', ''v2''), (''secret_key'', ''foo''),
              (''secret_version'', ''3'')]"
  let ?l2 = "\<lparr>kv_token = ''s.Zx81'', kv_url = ''https://vault.example.com:8200/v1'',
             kv_secret_path = ''/kv/app/db/'', kv_secret_key = Some ''foo'',
             kv_cacert = None, kv_api_version = ''v2''\<rparr>"
  let ?r2 = "\<lparr>req_method = ''GET'',
             req_url = ''https://vault.example.com:8200/v1/kv/data/app/db'',
             req_authorization = ''Bearer s.Zx81'', req_timeout = 30,
             req_verify = None, req_params = [(''version'', ''3'')],
             req_json = None\<rparr>"
  have a1: "kv_read_kwargs ?e ?kw1 = Inr ?l1" by code_simp
  have b1: "kv_request ?e ?kw1 ?l1 = Inr ?r1" by code_simp
  have a2: "kv_read_kwargs ?e ?kw2 = Inr ?l2" by code_simp
  have b2: "kv_request ?e ?kw2 ?l2 = Inr ?r2" by code_simp
  have c2: "split_secret_path ''/kv/app/db/'' = (''kv'', [''app'', ''db''])"
    by code_simp
  from kv_request_url [OF a1 b1] obtain server_url base location unstripped n where
    u: "?kw1 ''url'' = Some server_url"
    and j: "urljoin (ip_address ?e) server_url ''v1'' = Inr base"
    and p: "?kw1 ''secret_path'' = Some location"
    and s: "unstripped =
             (if ?kw1 ''api_version'' = Some ''v2'' then
                (case split_secret_path location of (mount_point, path) \<Rightarrow>
                   base @ ''/'' @ mount_point @ ''/data''
                     @ (if path = [] then [] else ''/'' @ str_join ''/'' path))
              else base @ ''/'' @ location)"
    and n: "unstripped = req_url ?r1 @ replicate n CHR ''/''"
    by (elim exE conjE)
  from u have u': "server_url = ''https://vault.example.com:8200''" by simp
  have "urljoin (ip_address ?e) ''https://vault.example.com:8200'' ''v1''
          = Inr ''https://vault.example.com:8200/v1''"
    by code_simp
  with j u' have j': "base = ''https://vault.example.com:8200/v1''" by simp
  from p have p': "location = ''kv/app/''" by simp
  have "?kw1 ''api_version'' \<noteq> Some ''v2''" by simp
  with s have s': "unstripped = base @ ''/'' @ location" by (simp only: if_False)
  have h: "req_url ?r1 = ''https://vault.example.com:8200/v1/kv/app''" by simp
  from s' [symmetric] n
  have "base @ ''/'' @ location = req_url ?r1 @ replicate n CHR ''/''"
    by (rule trans)
  then have eq: "''https://vault.example.com:8200/v1'' @ ''/'' @ ''kv/app/''
            = ''https://vault.example.com:8200/v1/kv/app'' @ replicate n CHR ''/''"
    unfolding j' p' h .
  have ex: "\<exists>n. ''https://vault.example.com:8200/v1'' @ ''/'' @ ''kv/app/''
            = ''https://vault.example.com:8200/v1/kv/app'' @ replicate n CHR ''/''"
  proof (intro exI)
    show "''https://vault.example.com:8200/v1'' @ ''/'' @ ''kv/app/''
            = ''https://vault.example.com:8200/v1/kv/app'' @ replicate n CHR ''/''"
      by (fact eq)
  qed
  show ?thesis by (intro conjI a1 b1 ex a2 b2 c2)
qed

lemma kv_backend_sent:
  assumes "kv_read_kwargs e kwargs = Inr l" and "kv_request e kwargs l = Inr req"
    and "send e req = Inr response"
  shows "kv_backend e kwargs = kv_result l response"
  by (simp add: kv_backend_def assms)

lemma ssh_backend_sent:
  assumes "ssh_read_kwargs e kwargs = Inr l" and "ssh_request e kwargs l = Inr req"
    and "send e req = Inr resp"
  shows "ssh_backend e kwargs = ssh_result resp"
  by (simp add: ssh_backend_def assms)

lemma raise_for_status_ok:
  "\<not> (400 \<le> status_code r \<and> status_code r < 600) \<Longrightarrow> raise_for_status r = Inr ()"
  by (simp add: raise_for_status_def)

lemma raise_for_status_error:
  "400 \<le> status_code r \<Longrightarrow> status_code r < 600 \<Longrightarrow> raise_for_status r = Inl (HTTPError r)"
  by (simp add: raise_for_status_def)

text \<open>
  C5. When a (non-empty) key name is supplied and the response, received without an
  HTTP error, resolves to a secret mapping that lacks the key, \<open>kv_backend\<close> returns
  no value: it raises RuntimeError with the message
  \<open>key is not present at location\<close>, naming the key and the secret location.
\<close>

theorem kv_backend_key_absent:
  assumes "kv_read_kwargs e kwargs = Inr l" and "kv_request e kwargs l = Inr req"
    and "send e req = Inr response"
    and "\<not> (400 \<le> status_code response \<and> status_code response < 600)"
    and "decoded response = Some j"
    and "if kwargs ''api_version'' = Some ''v2''
         then \<exists>d. getitem j ''data'' = Inr d \<and> getitem d ''data'' = Inr (JObj mapping)
         else getitem j ''data'' = Inr (JObj mapping)"
    and "kwargs ''secret_key'' = Some secret_key" and "secret_key \<noteq> []"
    and "map_of mapping secret_key = None"
  shows "\<exists>secret_path. kwargs ''secret_path'' = Some secret_path
           \<and> kv_backend e kwargs =
               Inl (RuntimeError (secret_key @ '' is not present at '' @ secret_path))"
proof -
  have v: "kwargs ''api_version'' = Some (kv_api_version l)"
    and p: "kwargs ''secret_path'' = Some (kv_secret_path l)"
    and k: "kv_secret_key l = Some secret_key"
    using kv_read_kwargs_Inr [OF assms(1)] assms(7) by simp_all
  have t: "truthy_value (kv_secret_key l) = Some secret_key"
    using k assms(8) by (simp add: truthy_value_def)
  have "kv_result l response =
          Inl (RuntimeError (secret_key @ '' is not present at '' @ kv_secret_path l))"
  proof (cases "kv_api_version l = ''v2''")
    case True
    with assms(6) v obtain d where
      "getitem j ''data'' = Inr d" "getitem d ''data'' = Inr (JObj mapping)"
      by auto
    with True t assms(4,5,9) show ?thesis
      by (simp add: kv_result_def raise_for_status_ok response_json_def)
  next
    case False
    with assms(6) v have "getitem j ''data'' = Inr (JObj mapping)" by auto
    with False t assms(4,5,9) show ?thesis
      by (simp add: kv_result_def raise_for_status_ok response_json_def)
  qed
  with p kv_backend_sent [OF assms(1-3)] show ?thesis by simp
qed





text \<open>
  C7, amended. A response with a status code from 400 to 599 makes either backend fail
  with the HTTPError that carries the response, before anything is read from its body.
\<close>

theorem http_error_status_fails:
  assumes "400 \<le> status_code response" and "status_code response < 600"
  shows "(kv_read_kwargs e kwargs = Inr l \<and> kv_request e kwargs l = Inr req
            \<and> send e req = Inr response
          \<longrightarrow> kv_backend e kwargs = Inl (HTTPError response))
       \<and> (ssh_read_kwargs e' kwargs' = Inr l' \<and> ssh_request e' kwargs' l' = Inr req'
            \<and> send e' req' = Inr response
          \<longrightarrow> ssh_backend e' kwargs' = Inl (HTTPError response))"
proof (intro conjI impI)
  assume "kv_read_kwargs e kwargs = Inr l \<and> kv_request e kwargs l = Inr req
            \<and> send e req = Inr response"
  then have "kv_backend e kwargs = kv_result l response"
    by (simp add: kv_backend_sent)
  also have "\<dots> = Inl (HTTPError response)"
    by (simp add: kv_result_def raise_for_status_error [OF assms])
  finally show "kv_backend e kwargs = Inl (HTTPError response)" .
next
  assume "ssh_read_kwargs e' kwargs' = Inr l' \<and> ssh_request e' kwargs' l' = Inr req'
            \<and> send e' req' = Inr response"
  then have "ssh_backend e' kwargs' = ssh_result response"
    by (simp add: ssh_backend_sent)
  also have "\<dots> = Inl (HTTPError response)"
    by (simp add: ssh_result_def raise_for_status_error [OF assms])
  finally show "ssh_backend e' kwargs' = Inl (HTTPError response)" .
qed

theorem kv_backend_key_absent_witness:
  "kv_backend
     (env_replying 200 (Some (JObj [(''data'', JObj [(''foo'', JStr ''bar'')])])))
     (map_of [(''url'', ''https://vault.example.com:8200''), (''token'', ''s.Zx81''),
              (''secret_path'', ''kv/app''), (''api_version'', ''v1''),
              (''secret_key'', ''password'')])
     = Inl (RuntimeError ''password is not present at kv/app'')"
proof -
  let ?j = "JObj [(''data'', JObj [(''foo'', JStr ''bar'')])]"
  let ?e = "env_replying 200 (Some ?j)"
  let ?kwargs = "map_of [(''url'', ''https://vault.example.com:8200''),
              (''token'', ''s.Zx81''), (''secret_path'', ''kv/app''),
              (''api_version'', ''v1''), (''secret_key'', ''password'')]"
  let ?l = "\<lparr>kv_token = ''s.Zx81'', kv_url = ''https://vault.example.com:8200/v1'',
             kv_secret_path = ''kv/app'', kv_secret_key = Some ''password'',
             kv_cacert = None, kv_api_version = ''v1''\<rparr>"
  let ?req = "\<lparr>req_method = ''GET'',
             req_url = ''https://vault.example.com:8200/v1/kv/app'',
             req_authorization = ''Bearer s.Zx81'', req_timeout = 30,
             req_verify = None, req_params = [], req_json = None\<rparr>"
  let ?response = "\<lparr>status_code = 200, decoded = Some ?j\<rparr>"
  have 1: "kv_read_kwargs ?e ?kwargs = Inr ?l" by code_simp
  have 2: "kv_request ?e ?kwargs ?l = Inr ?req" by code_simp
  have 3: "send ?e ?req = Inr ?response" by (simp add: env_replying_def)
  have 4: "\<not> (400 \<le> status_code ?response \<and> status_code ?response < 600)" by simp
  have 5: "decoded ?response = Some ?j" by simp
  have 6: "if ?kwargs ''api_version'' = Some ''v2''
           then \<exists>d. getitem ?j ''data'' = Inr d
                  \<and> getitem d ''data'' = Inr (JObj [(''foo'', JStr ''bar'')])
           else getitem ?j ''data'' = Inr (JObj [(''foo'', JStr ''bar'')])"
    by simp
  have 7: "?kwargs ''secret_key'' = Some ''password''" by simp
  have 8: "''password'' \<noteq> []" by simp
  have 9: "map_of [(''foo'', JStr ''bar'')] ''password'' = None" by simp
  from kv_backend_key_absent [OF 1 2 3 4 5 6 7 8 9] obtain secret_path where
    a: "?kwargs ''secret_path'' = Some secret_path"
    and b: "kv_backend ?e ?kwargs =
              Inl (RuntimeError (''password'' @ '' is not present at '' @ secret_path))"
    by blast
  have "?kwargs ''secret_path'' = Some ''kv/app''" by simp
  with a have "secret_path = ''kv/app''" by (simp only: option.inject)
  with b show ?thesis by (simp only: append.simps)
qed


theorem http_error_status_fails_witness:
  "kv_backend
     (env_replying 404 (Some (JObj [(''errors'', JArr [])])))
     (map_of [(''url'', ''https://vault.example.com:8200''), (''token'', ''s.Zx81''),
              (''secret_path'', ''kv/app''), (''api_version'', ''v1''),
              (''secret_key'', ''password'')])
     = Inl (HTTPError \<lparr>status_code = 404, decoded = Some (JObj [(''errors'', JArr [])])\<rparr>)
   \<and> ssh_backend
     (env_replying 404 (Some (JObj [(''errors'', JArr [])])))
     (map_of [(''url'', ''https://vault.example.com:8200''), (''token'', ''s.Zx81''),
              (''secret_path'', ''ssh-client''), (''role'', ''ops''),
              (''public_key'', ''ssh-rsa AAAAB3'')])
     = Inl (HTTPError \<lparr>status_code = 404, decoded = Some (JObj [(''errors'', JArr [])])\<rparr>)"
proof -
  let ?response = "\<lparr>status_code = 404, decoded = Some (JObj [(''errors'', JArr [])])\<rparr>"
  let ?e = "env_replying 404 (Some (JObj [(''errors'', JArr [])]))"
  let ?kwargs = "map_of [(''url'', ''https://vault.example.com:8200''),
              (''token'', ''s.Zx81''), (''secret_path'', ''kv/app''),
              (''api_version'', ''v1''), (''secret_key'', ''password'')]"
  let ?l = "\<lparr>kv_token = ''s.Zx81'', kv_url = ''https://vault.example.com:8200/v1'',
             kv_secret_path = ''kv/app'', kv_secret_key = Some ''password'',
             kv_cacert = None, kv_api_version = ''v1''\<rparr>"
  let ?req = "\<lparr>req_method = ''GET'',
             req_url = ''https://vault.example.com:8200/v1/kv/app'',
             req_authorization = ''Bearer s.Zx81'', req_timeout = 30,
             req_verify = None, req_params = [], req_json = None\<rparr>"
  let ?kwargs' = "map_of [(''url'', ''https://vault.example.com:8200''),
              (''token'', ''s.Zx81''), (''secret_path'', ''ssh-client''),
              (''role'', ''ops''), (''public_key'', ''ssh-rsa AAAAB3'')]"
  let ?l' = "\<lparr>ssh_token = ''s.Zx81'', ssh_url = ''https://vault.example.com:8200/v1'',
      ssh_secret_path = ''ssh-client'', ssh_role = ''ops'', ssh_cacert = None\<rparr>"
  let ?req' = "\<lparr>req_method = ''POST'',
             req_url = ''https://vault.example.com:8200/v1/ssh-client/sign/ops'',
             req_authorization = ''Bearer s.Zx81'', req_timeout = 30,
             req_verify = None, req_params = [],
             req_json = Some (JObj [(''public_key'', JStr ''ssh-rsa AAAAB3'')])\<rparr>"
  have s1: "400 \<le> status_code ?response" and s2: "status_code ?response < 600"
    by simp_all
  have kv: "kv_read_kwargs ?e ?kwargs = Inr ?l \<and> kv_request ?e ?kwargs ?l = Inr ?req
            \<and> send ?e ?req = Inr ?response"
  proof (intro conjI)
    show "kv_read_kwargs ?e ?kwargs = Inr ?l" by code_simp
    show "kv_request ?e ?kwargs ?l = Inr ?req" by code_simp
    show "send ?e ?req = Inr ?response" by (simp add: env_replying_def)
  qed
  have ssh: "ssh_read_kwargs ?e ?kwargs' = Inr ?l' \<and> ssh_request ?e ?kwargs' ?l' = Inr ?req'
            \<and> send ?e ?req' = Inr ?response"
  proof (intro conjI)
    show "ssh_read_kwargs ?e ?kwargs' = Inr ?l'" by code_simp
    show "ssh_request ?e ?kwargs' ?l' = Inr ?req'" by code_simp
    show "send ?e ?req' = Inr ?response" by (simp add: env_replying_def)
  qed
  from http_error_status_fails [OF s1 s2, of ?e ?kwargs ?l ?req ?e ?kwargs' ?l' ?req']
    kv ssh
  show ?thesis by blast
qed

theorem non_2xx_status_counterexample:
  "kv_backend
     (env_replying 300 (Some (JObj [(''data'', JObj [(''foo'', JStr ''bar'')])])))
     (map_of [(''url'', ''https://vault.example.com:8200''), (''token'', ''s.Zx81''),
              (''secret_path'', ''kv/app''), (''api_version'', ''v1'')])
     = Inr (JObj [(''foo'', JStr ''bar'')])
   \<and> ssh_backend
     (env_replying 300
        (Some (JObj [(''data'', JObj [(''signed_key'', JStr ''ssh-rsa-cert-v01'')])])))
     (map_of [(''url'', ''https://vault.example.com:8200''), (''token'', ''s.Zx81''),
              (''secret_path'', ''ssh-client''), (''role'', ''ops''),
              (''public_key'', ''ssh-rsa AAAAB3'')])
     = Inr (JStr ''ssh-rsa-cert-v01'')
   \<and> send (env_replying 300 (Some (JObj [(''data'', JObj [(''foo'', JStr ''bar'')])])))
       \<lparr>req_method = ''GET'', req_url = ''https://vault.example.com:8200/v1/kv/app'',
        req_authorization = ''Bearer s.Zx81'', req_timeout = 30,
        req_verify = None, req_params = [], req_json = None\<rparr>
     = Inr \<lparr>status_code = 300,
             decoded = Some (JObj [(''data'', JObj [(''foo'', JStr ''bar'')])])\<rparr>"
proof (intro conjI)
  show "kv_backend
     (env_replying 300 (Some (JObj [(''data'', JObj [(''foo'', JStr ''bar'')])])))
     (map_of [(''url'', ''https://vault.example.com:8200''), (''token'', ''s.Zx81''),
              (''secret_path'', ''kv/app''), (''api_version'', ''v1'')])
     = Inr (JObj [(''foo'', JStr ''bar'')])"
    by code_simp
  show "ssh_backend
     (env_replying 300
        (Some (JObj [(''data'', JObj [(''signed_key'', JStr ''ssh-rsa-cert-v01'')])])))
     (map_of [(''url'', ''https://vault.example.com:8200''), (''token'', ''s.Zx81''),
              (''secret_path'', ''ssh-client''), (''role'', ''ops''),
              (''public_key'', ''ssh-rsa AAAAB3'')])
     = Inr (JStr ''ssh-rsa-cert-v01'')"
    by code_simp
  show "send (env_replying 300 (Some (JObj [(''data'', JObj [(''foo'', JStr ''bar'')])])))
       \<lparr>req_method = ''GET'', req_url = ''https://vault.example.com:8200/v1/kv/app'',
        req_authorization = ''Bearer s.Zx81'', req_timeout = 30,
        req_verify = None, req_params = [], req_json = None\<rparr>
     = Inr \<lparr>status_code = 300,
             decoded = Some (JObj [(''data'', JObj [(''foo'', JStr ''bar'')])])\<rparr>"
    by (simp add: env_replying_def)
qed

lemma getitem_JObj_missing: "map_of items k = None \<Longrightarrow> getitem (JObj items) k = Inl (KeyError k)"
  by simp

lemma getitem_JObj_present: "map_of items k = Some v \<Longrightarrow> getitem (JObj items) k = Inr v"
  by simp

lemma kv_result_no_key:
  assumes "truthy_value (kv_secret_key l) = None"
    and "\<not> (400 \<le> status_code response \<and> status_code response < 600)"
    and "decoded response = Some j"
  shows "kv_result l response =
           (if kv_api_version l = ''v2''
            then err_bind (getitem j ''data'') (\<lambda>d. getitem d ''data'')
            else getitem j ''data'')"
  using assms by (simp add: kv_result_def raise_for_status_ok response_json_def)

lemma kv_result_with_key:
  assumes "truthy_value (kv_secret_key l) = Some secret_key"
    and "\<not> (400 \<le> status_code response \<and> status_code response < 600)"
    and "decoded response = Some j"
  shows "kv_result l response =
           (if kv_api_version l = ''v2''
            then err_bind (getitem j ''data'') (\<lambda>json.
                   except_key_error
                     (err_bind (getitem json ''data'') (\<lambda>d. getitem d secret_key))
                     (RuntimeError (secret_key @ '' is not present at '' @ kv_secret_path l)))
            else except_key_error
                   (err_bind (getitem j ''data'') (\<lambda>d. getitem d secret_key))
                   (RuntimeError (secret_key @ '' is not present at '' @ kv_secret_path l)))"
  using assms by (simp add: kv_result_def raise_for_status_ok response_json_def)

lemma truthy_value_None_iff: "truthy_value v = None \<longleftrightarrow> v = None \<or> v = Some []"
  by (simp add: truthy_value_def split: option.splits)

lemma truthy_value_Some_iff: "truthy_value v = Some s \<longleftrightarrow> v = Some s \<and> s \<noteq> []"
  by (auto simp: truthy_value_def split: option.splits)

text \<open>
  C8, amended. A response received without an HTTP error whose body is a JSON object
  that lacks the expected field makes the invocation fail; no value is returned.
  \<open>ssh_backend\<close> raises KeyError for a missing \<open>data\<close> or \<open>signed_key\<close>.
  \<open>kv_backend\<close> raises KeyError for a missing \<open>data\<close> when the engine version is
  \<open>v2\<close> and the top-level field is missing, or when no (non-empty) key name is
  supplied; with a non-empty key name, a missing secret mapping (\<open>data\<close> for \<open>v1\<close>,
  \<open>data.data\<close> for \<open>v2\<close>) raises the RuntimeError of an absent key.
\<close>

theorem missing_field_fails:
  assumes "\<not> (400 \<le> status_code response \<and> status_code response < 600)"
    and "decoded response = Some (JObj items)"
  shows "(kv_read_kwargs e kwargs = Inr l \<and> kv_request e kwargs l = Inr req
            \<and> send e req = Inr response \<and> map_of items ''data'' = None
          \<longrightarrow> kv_backend e kwargs =
               (if kwargs ''api_version'' = Some ''v2'' then Inl (KeyError ''data'')
                else case kwargs ''secret_key'' of
                       None \<Rightarrow> Inl (KeyError ''data'')
                     | Some secret_key \<Rightarrow>
                         if secret_key = [] then Inl (KeyError ''data'')
                         else Inl (RuntimeError
                                (secret_key @ '' is not present at '' @ kv_secret_path l))))
       \<and> (kv_read_kwargs e kwargs = Inr l \<and> kv_request e kwargs l = Inr req
            \<and> send e req = Inr response \<and> kwargs ''api_version'' = Some ''v2''
            \<and> map_of items ''data'' = Some (JObj inner) \<and> map_of inner ''data'' = None
          \<longrightarrow> kv_backend e kwargs =
               (case kwargs ''secret_key'' of
                  None \<Rightarrow> Inl (KeyError ''data'')
                | Some secret_key \<Rightarrow>
                    if secret_key = [] then Inl (KeyError ''data'')
                    else Inl (RuntimeError
                           (secret_key @ '' is not present at '' @ kv_secret_path l))))
       \<and> (ssh_read_kwargs e' kwargs' = Inr l' \<and> ssh_request e' kwargs' l' = Inr req'
            \<and> send e' req' = Inr response \<and> map_of items ''data'' = None
          \<longrightarrow> ssh_backend e' kwargs' = Inl (KeyError ''data''))
       \<and> (ssh_read_kwargs e' kwargs' = Inr l' \<and> ssh_request e' kwargs' l' = Inr req'
            \<and> send e' req' = Inr response
            \<and> map_of items ''data'' = Some (JObj inner)
            \<and> map_of inner ''signed_key'' = None
          \<longrightarrow> ssh_backend e' kwargs' = Inl (KeyError ''signed_key''))"
proof (intro conjI impI)
  assume a: "kv_read_kwargs e kwargs = Inr l \<and> kv_request e kwargs l = Inr req
            \<and> send e req = Inr response \<and> map_of items ''data'' = None"
  then have b: "kv_backend e kwargs = kv_result l response"
    by (simp add: kv_backend_sent)
  from a have v: "kwargs ''api_version'' = Some (kv_api_version l)"
    and k: "kv_secret_key l = kwargs ''secret_key''"
    using kv_read_kwargs_Inr(4,5) by blast+
  from a have g: "getitem (JObj items) ''data'' = Inl (KeyError ''data'')" by simp
  show "kv_backend e kwargs =
               (if kwargs ''api_version'' = Some ''v2'' then Inl (KeyError ''data'')
                else case kwargs ''secret_key'' of
                       None \<Rightarrow> Inl (KeyError ''data'')
                     | Some secret_key \<Rightarrow>
                         if secret_key = [] then Inl (KeyError ''data'')
                         else Inl (RuntimeError
                                (secret_key @ '' is not present at '' @ kv_secret_path l)))"
  proof (cases "truthy_value (kv_secret_key l)")
    case None
    from kv_result_no_key [OF None assms] g None b v k show ?thesis
      by (auto simp: truthy_value_None_iff)
  next
    case (Some secret_key)
    from kv_result_with_key [OF Some assms] g Some b v k show ?thesis
      by (auto simp: truthy_value_Some_iff)
  qed
next
  assume a: "kv_read_kwargs e kwargs = Inr l \<and> kv_request e kwargs l = Inr req
            \<and> send e req = Inr response \<and> kwargs ''api_version'' = Some ''v2''
            \<and> map_of items ''data'' = Some (JObj inner) \<and> map_of inner ''data'' = None"
  then have b: "kv_backend e kwargs = kv_result l response"
    by (simp add: kv_backend_sent)
  from a have v: "kv_api_version l = ''v2''"
    and k: "kv_secret_key l = kwargs ''secret_key''"
    using kv_read_kwargs_Inr(4,5) [of e kwargs l] by auto
  from a have g: "getitem (JObj items) ''data'' = Inr (JObj inner)"
    and g': "getitem (JObj inner) ''data'' = Inl (KeyError ''data'')"
    by simp_all
  show "kv_backend e kwargs =
               (case kwargs ''secret_key'' of
                  None \<Rightarrow> Inl (KeyError ''data'')
                | Some secret_key \<Rightarrow>
                    if secret_key = [] then Inl (KeyError ''data'')
                    else Inl (RuntimeError
                           (secret_key @ '' is not present at '' @ kv_secret_path l)))"
  proof (cases "truthy_value (kv_secret_key l)")
    case None
    from kv_result_no_key [OF None assms] g g' None b v k show ?thesis
      by (auto simp: truthy_value_None_iff)
  next
    case (Some secret_key)
    from kv_result_with_key [OF Some assms] g g' Some b v k show ?thesis
      by (auto simp: truthy_value_Some_iff)
  qed
next
  assume a: "ssh_read_kwargs e' kwargs' = Inr l' \<and> ssh_request e' kwargs' l' = Inr req'
            \<and> send e' req' = Inr response \<and> map_of items ''data'' = None"
  then have "ssh_backend e' kwargs' = ssh_result response"
    by (simp add: ssh_backend_sent)
  with a assms show "ssh_backend e' kwargs' = Inl (KeyError ''data'')"
    by (simp add: ssh_result_def raise_for_status_ok response_json_def)
next
  assume a: "ssh_read_kwargs e' kwargs' = Inr l' \<and> ssh_request e' kwargs' l' = Inr req'
            \<and> send e' req' = Inr response
            \<and> map_of items ''data'' = Some (JObj inner)
            \<and> map_of inner ''signed_key'' = None"
  then have "ssh_backend e' kwargs' = ssh_result response"
    by (simp add: ssh_backend_sent)
  with a assms show "ssh_backend e' kwargs' = Inl (KeyError ''signed_key'')"
    by (simp add: ssh_result_def raise_for_status_ok response_json_def)
qed

theorem missing_field_fails_witness:
  "kv_backend (env_replying 200 (Some (JObj [])))
     (map_of [(''url'', ''https://vault.example.com:8200''), (''token'', ''s.Zx81''),
              (''secret_path'', ''kv/app''), (''api_version'', ''v1'')])
     = Inl (KeyError ''data'')
   \<and> ssh_backend (env_replying 200 (Some (JObj [])))
     (map_of [(''url'', ''https://vault.example.com:8200''), (''token'', ''s.Zx81''),
              (''secret_path'', ''ssh-client''), (''role'', ''ops''),
              (''public_key'', ''ssh-rsa AAAAB3'')])
     = Inl (KeyError ''data'')"
proof -
  let ?response = "\<lparr>status_code = 200, decoded = Some (JObj [])\<rparr>"
  let ?e = "env_replying 200 (Some (JObj []))"
  let ?kwargs = "map_of [(''url'', ''https://vault.example.com:8200''),
              (''token'', ''s.Zx81''), (''secret_path'', ''kv/app''),
              (''api_version'', ''v1'')]"
  let ?l = "\<lparr>kv_token = ''s.Zx81'', kv_url = ''https://vault.example.com:8200/v1'',
             kv_secret_path = ''kv/app'', kv_secret_key = None,
             kv_cacert = None, kv_api_version = ''v1''\<rparr>"
  let ?req = "\<lparr>req_method = ''GET'',
             req_url = ''https://vault.example.com:8200/v1/kv/app'',
             req_authorization = ''Bearer s.Zx81'', req_timeout = 30,
             req_verify = None, req_params = [], req_json = None\<rparr>"
  let ?kwargs' = "map_of [(''url'', ''https://vault.example.com:8200''),
              (''token'', ''s.Zx81''), (''secret_path'', ''ssh-client''),
              (''role'', ''ops''), (''public_key'', ''ssh-rsa AAAAB3'')]"
  let ?l' = "\<lparr>ssh_token = ''s.Zx81'', ssh_url = ''https://vault.example.com:8200/v1'',
      ssh_secret_path = ''ssh-client'', ssh_role = ''ops'', ssh_cacert = None\<rparr>"
  let ?req' = "\<lparr>req_method = ''POST'',
             req_url = ''https://vault.example.com:8200/v1/ssh-client/sign/ops'',
             req_authorization = ''Bearer s.Zx81'', req_timeout = 30,
             req_verify = None, req_params = [],
             req_json = Some (JObj [(''public_key'', JStr ''ssh-rsa AAAAB3'')])\<rparr>"
  have s1: "\<not> (400 \<le> status_code ?response \<and> status_code ?response < 600)"
    and s2: "decoded ?response = Some (JObj [])"
    by simp_all
  have kv: "kv_read_kwargs ?e ?kwargs = Inr ?l \<and> kv_request ?e ?kwargs ?l = Inr ?req
            \<and> send ?e ?req = Inr ?response \<and> map_of [] ''data'' = (None :: json option)"
  proof (intro conjI)
    show "kv_read_kwargs ?e ?kwargs = Inr ?l" by code_simp
    show "kv_request ?e ?kwargs ?l = Inr ?req" by code_simp
    show "send ?e ?req = Inr ?response" by (simp add: env_replying_def)
    show "map_of [] ''data'' = (None :: json option)" by simp
  qed
  have ssh: "ssh_read_kwargs ?e ?kwargs' = Inr ?l' \<and> ssh_request ?e ?kwargs' ?l' = Inr ?req'
            \<and> send ?e ?req' = Inr ?response \<and> map_of [] ''data'' = (None :: json option)"
  proof (intro conjI)
    show "ssh_read_kwargs ?e ?kwargs' = Inr ?l'" by code_simp
    show "ssh_request ?e ?kwargs' ?l' = Inr ?req'" by code_simp
    show "send ?e ?req' = Inr ?response" by (simp add: env_replying_def)
    show "map_of [] ''data'' = (None :: json option)" by simp
  qed
  note t = missing_field_fails [OF s1 s2, of ?e ?kwargs ?l ?req _ ?e ?kwargs' ?l' ?req']
  from t kv have "kv_backend ?e ?kwargs =
               (if ?kwargs ''api_version'' = Some ''v2'' then Inl (KeyError ''data'')
                else case ?kwargs ''secret_key'' of
                       None \<Rightarrow> Inl (KeyError ''data'')
                     | Some secret_key \<Rightarrow>
                         if secret_key = [] then Inl (KeyError ''data'')
                         else Inl (RuntimeError
                                (secret_key @ '' is not present at '' @ kv_secret_path ?l)))"
    by blast
  moreover have "?kwargs ''api_version'' = Some ''v1''" and "?kwargs ''secret_key'' = None"
    by simp_all
  ultimately have "kv_backend ?e ?kwargs = Inl (KeyError ''data'')"
    by (simp only: option.inject option.case if_False list.inject char.inject simp_thms)
  moreover from t ssh have "ssh_backend ?e ?kwargs' = Inl (KeyError ''data'')"
    by blast
  ultimately show ?thesis by (rule conjI)
qed

theorem missing_data_counterexample:
  "kv_backend (env_replying 200 (Some (JObj [])))
     (map_of [(''url'', ''https://vault.example.com:8200''), (''token'', ''s.Zx81''),
              (''secret_path'', ''kv/app''), (''api_version'', ''v1''),
              (''secret_key'', ''password'')])
     = Inl (RuntimeError ''password is not present at kv/app'')
   \<and> kv_backend
     (env_replying 200 (Some (JObj [(''data'', JObj [(''foo'', JStr ''bar'')])])))
     (map_of [(''url'', ''https://vault.example.com:8200''), (''token'', ''s.Zx81''),
              (''secret_path'', ''kv/app''), (''api_version'', ''v1''),
              (''secret_key'', ''password'')])
     = Inl (RuntimeError ''password is not present at kv/app'')"
proof (intro conjI)
  show "kv_backend (env_replying 200 (Some (JObj [])))
     (map_of [(''url'', ''https://vault.example.com:8200''), (''token'', ''s.Zx81''),
              (''secret_path'', ''kv/app''), (''api_version'', ''v1''),
              (''secret_key'', ''password'')])
     = Inl (RuntimeError ''password is not present at kv/app'')"
    by code_simp
  show "kv_backend
     (env_replying 200 (Some (JObj [(''data'', JObj [(''foo'', JStr ''bar'')])])))
     (map_of [(''url'', ''https://vault.example.com:8200''), (''token'', ''s.Zx81''),
              (''secret_path'', ''kv/app''), (''api_version'', ''v1''),
              (''secret_key'', ''password'')])
     = Inl (RuntimeError ''password is not present at kv/app'')"
    by code_simp
qed










section \<open>The base URL\<close>











end
